theory Spec2Isabelle
  imports Complex_Main
begin

section \<open>JavaScript values\<close>

text \<open>
  The values that travel through servidor.js: what \<open>express.json()\<close> puts into
  \<open>req.body\<close>, what is bound into a statement, what the driver hands to a callback and
  what is given to \<open>res.json\<close>. An object is the list of its own properties, in
  order. \<open>JUndefined\<close> is the value of a property that an object does not have.
\<close>

datatype jsval =
    JUndefined
  | JNull
  | JBool bool
  | JNum rat
  | JStr string
  | JArr "jsval list"
  | JObj "(string \<times> jsval) list"

text \<open>The test that \<open>if (v)\<close> and \<open>!v\<close> perform.\<close>

fun truthy :: "jsval \<Rightarrow> bool" where
  "truthy JUndefined = False"
| "truthy JNull = False"
| "truthy (JBool b) = b"
| "truthy (JNum n) = (n \<noteq> 0)"
| "truthy (JStr s) = (s \<noteq> [])"
| "truthy (JArr xs) = True"
| "truthy (JObj kvs) = True"

text \<open>
  Reading a property from the properties of an object, as the destructuring
  \<open>const { nombre, telefono, email } = req.body\<close> does for each name.
\<close>

definition own_prop :: "(string \<times> jsval) list \<Rightarrow> string \<Rightarrow> jsval" where
  "own_prop kvs k = (case map_of kvs k of None \<Rightarrow> JUndefined | Some v \<Rightarrow> v)"

text \<open>Reading a property from a value; only an object has the properties read here.\<close>

fun js_get :: "jsval \<Rightarrow> string \<Rightarrow> jsval" where
  "js_get (JObj kvs) k = own_prop kvs k"
| "js_get v k = JUndefined"

section \<open>Requests, responses and the driver\<close>

text \<open>
  \<open>req.params.id\<close> is the text of the path segment, \<open>req.body\<close> the object parsed
  from the request. A response is the status code and the value given to
  \<open>res.json\<close>.
\<close>

record request =
  params_id :: string
  body :: "(string \<times> jsval) list"

record response =
  status :: nat
  json :: jsval

text \<open>\<open>res.status(c).json(v)\<close>, and \<open>res.json(v)\<close> which leaves the status at 200.\<close>

definition res_status_json :: "nat \<Rightarrow> jsval \<Rightarrow> response" where
  "res_status_json c v = \<lparr>status = c, json = v\<rparr>"

definition res_json :: "jsval \<Rightarrow> response" where
  "res_json v = res_status_json 200 v"

text \<open>
  What \<open>db.query\<close> passes to its callback \<open>(err, results)\<close>: an error with its
  message, or the results, which are an array of rows for a SELECT and a header object
  (with \<open>insertId\<close>) for the other statements.
\<close>

datatype qresult =
    Rows "jsval list"
  | Header "(string \<times> jsval) list"

datatype outcome =
    Failure string
  | Success qresult

text \<open>\<open>results.length\<close>, \<open>results[0]\<close>, \<open>result.insertId\<close> and the value itself.\<close>

fun results_length :: "qresult \<Rightarrow> jsval" where
  "results_length (Rows rs) = JNum (of_nat (length rs))"
| "results_length (Header h) = own_prop h ''length''"

fun results_0 :: "qresult \<Rightarrow> jsval" where
  "results_0 (Rows []) = JUndefined"
| "results_0 (Rows (r # rs)) = r"
| "results_0 (Header h) = own_prop h ''0''"

fun result_insertId :: "qresult \<Rightarrow> jsval" where
  "result_insertId (Rows rs) = JUndefined"
| "result_insertId (Header h) = own_prop h ''insertId''"

fun results_value :: "qresult \<Rightarrow> jsval" where
  "results_value (Rows rs) = JArr rs"
| "results_value (Header h) = JObj h"

text \<open>
  A handler either answers at once, or issues one statement (its text and the values
  bound to its placeholders) together with the callback that turns the outcome into the
  answer.
\<close>

datatype action =
    Respond response
  | Query string "jsval list" "outcome \<Rightarrow> response"

section \<open>The five endpoints\<close>

text \<open>The body every callback sends when \<open>err\<close> is set.\<close>

definition error_json :: "string \<Rightarrow> jsval" where
  "error_json msg = JObj [(''error'', JStr msg)]"

definition message_json :: "string \<Rightarrow> jsval" where
  "message_json msg = JObj [(''message'', JStr msg)]"

subsection \<open>GET /api/usuarios\<close>

definition get_usuarios_cb :: "outcome \<Rightarrow> response" where
  "get_usuarios_cb out =
     (case out of
        Failure msg \<Rightarrow> res_status_json 500 (error_json msg)
      | Success results \<Rightarrow> res_json (results_value results))"

definition app_get_usuarios :: "request \<Rightarrow> action" where
  "app_get_usuarios req = Query ''SELECT * FROM usuarios'' [] get_usuarios_cb"

subsection \<open>GET /api/usuarios/:id\<close>

definition get_usuarios_id_cb :: "outcome \<Rightarrow> response" where
  "get_usuarios_id_cb out =
     (case out of
        Failure msg \<Rightarrow> res_status_json 500 (error_json msg)
      | Success results \<Rightarrow>
          if results_length results = JNum 0
          then res_status_json 404 (message_json ''Usuario no encontrado'')
          else res_json (results_0 results))"

definition app_get_usuarios_id :: "request \<Rightarrow> action" where
  "app_get_usuarios_id req =
     (let id = JStr (params_id req)
      in Query ''SELECT * FROM usuarios WHERE id = ?'' [id] get_usuarios_id_cb)"

subsection \<open>POST /api/usuarios\<close>

definition post_usuarios_cb :: "jsval \<Rightarrow> jsval \<Rightarrow> jsval \<Rightarrow> outcome \<Rightarrow> response" where
  "post_usuarios_cb nombre telefono email out =
     (case out of
        Failure msg \<Rightarrow> res_status_json 500 (error_json msg)
      | Success result \<Rightarrow>
          res_status_json 201
            (JObj [(''id'', result_insertId result), (''nombre'', nombre),
                   (''telefono'', telefono), (''email'', email)]))"

definition app_post_usuarios :: "request \<Rightarrow> action" where
  "app_post_usuarios req =
     (let nombre = own_prop (body req) ''nombre'';
          telefono = own_prop (body req) ''telefono'';
          email = own_prop (body req) ''email''
      in if \<not> truthy nombre \<or> \<not> truthy email
         then Respond (res_status_json 400 (message_json ''Nombre y email son obligatorios''))
         else Query ''INSERT INTO usuarios (nombre, telefono, email) VALUES (?, ?, ?)''
                [nombre, telefono, email] (post_usuarios_cb nombre telefono email))"

subsection \<open>PUT /api/usuarios/:id\<close>

definition put_usuarios_id_cb :: "outcome \<Rightarrow> response" where
  "put_usuarios_id_cb out =
     (case out of
        Failure msg \<Rightarrow> res_status_json 500 (error_json msg)
      | Success result \<Rightarrow> res_json (message_json ''Usuario actualizado correctamente''))"

definition app_put_usuarios_id :: "request \<Rightarrow> action" where
  "app_put_usuarios_id req =
     (let id = JStr (params_id req);
          nombre = own_prop (body req) ''nombre'';
          telefono = own_prop (body req) ''telefono'';
          email = own_prop (body req) ''email''
      in Query ''UPDATE usuarios SET nombre = ?, telefono = ?, email = ? WHERE id = ?''
           [nombre, telefono, email, id] put_usuarios_id_cb)"

subsection \<open>DELETE /api/usuarios/:id\<close>

definition delete_usuarios_id_cb :: "outcome \<Rightarrow> response" where
  "delete_usuarios_id_cb out =
     (case out of
        Failure msg \<Rightarrow> res_status_json 500 (error_json msg)
      | Success result \<Rightarrow> res_json (message_json ''Usuario eliminado correctamente''))"

definition app_delete_usuarios_id :: "request \<Rightarrow> action" where
  "app_delete_usuarios_id req =
     (let id = JStr (params_id req)
      in Query ''DELETE FROM usuarios WHERE id = ?'' [id] delete_usuarios_id_cb)"

section \<open>Serving a request against a store\<close>

text \<open>
  \<open>db.query\<close> is a parameter: given the statement text, the bound values and the
  state of the store, it gives the outcome handed to the callback and the state the
  store is left in. Serving a request that issues no statement leaves the store as it
  was.
\<close>

type_synonym 's driver = "string \<Rightarrow> jsval list \<Rightarrow> 's \<Rightarrow> outcome \<times> 's"

fun serve :: "'s driver \<Rightarrow> action \<Rightarrow> 's \<Rightarrow> response \<times> 's" where
  "serve db (Respond r) s = (r, s)"
| "serve db (Query sql vals cb) s = (let (out, s') = db sql vals s in (cb out, s'))"

text \<open>The statement a handler issues, if any: its text and its bound values.\<close>

fun issued :: "action \<Rightarrow> (string \<times> jsval list) option" where
  "issued (Respond r) = None"
| "issued (Query sql vals cb) = Some (sql, vals)"

section \<open>The store\<close>

text \<open>
  Modelled from the spec: the relational store behind \<open>db.query\<close>, which is the
  database engine and not part of servidor.js. It holds one table with the columns
  \<open>id\<close>, \<open>nombre\<close>, \<open>telefono\<close>, \<open>email\<close>, rows in insertion order; the
  \<open>id\<close> is generated by the store on insert and never handed out twice. The five
  statement texts of servidor.js are given their meaning on that table: a row is created
  with the bound values, an update overwrites the three other columns of the rows whose
  \<open>id\<close> equals the bound value, a delete removes those rows. A store that cannot be
  reached (\<open>fault\<close>) fails every statement with its message and changes nothing.
  How the engine compares the column \<open>id\<close> with a bound value is the parameter
  \<open>id_eq\<close>, so that nothing below depends on it. Column values are kept as they were
  bound.
\<close>

record usuario =
  col_id :: nat
  col_nombre :: jsval
  col_telefono :: jsval
  col_email :: jsval

record store =
  usuarios :: "usuario list"
  auto_increment :: nat
  fault :: "string option"

definition empty_store :: store where
  "empty_store = \<lparr>usuarios = [], auto_increment = 1, fault = None\<rparr>"

definition row_json :: "usuario \<Rightarrow> jsval" where
  "row_json r =
     JObj [(''id'', JNum (of_nat (col_id r))), (''nombre'', col_nombre r),
           (''telefono'', col_telefono r), (''email'', col_email r)]"

definition header :: "nat \<Rightarrow> nat \<Rightarrow> qresult" where
  "header ins affected =
     Header [(''affectedRows'', JNum (of_nat affected)), (''insertId'', JNum (of_nat ins))]"

definition select_all :: "store \<Rightarrow> outcome \<times> store" where
  "select_all s = (Success (Rows (map row_json (usuarios s))), s)"

definition select_by_id :: "(jsval \<Rightarrow> nat \<Rightarrow> bool) \<Rightarrow> jsval \<Rightarrow> store \<Rightarrow> outcome \<times> store" where
  "select_by_id id_eq v s =
     (Success (Rows (map row_json (filter (\<lambda>r. id_eq v (col_id r)) (usuarios s)))), s)"

definition insert_row :: "jsval \<Rightarrow> jsval \<Rightarrow> jsval \<Rightarrow> store \<Rightarrow> outcome \<times> store" where
  "insert_row n t e s =
     (Success (header (auto_increment s) 1),
      s\<lparr>usuarios := usuarios s @
            [\<lparr>col_id = auto_increment s, col_nombre = n, col_telefono = t, col_email = e\<rparr>],
        auto_increment := Suc (auto_increment s)\<rparr>)"

definition update_by_id ::
  "(jsval \<Rightarrow> nat \<Rightarrow> bool) \<Rightarrow> jsval \<Rightarrow> jsval \<Rightarrow> jsval \<Rightarrow> jsval \<Rightarrow> store \<Rightarrow> outcome \<times> store" where
  "update_by_id id_eq n t e v s =
     (Success (header 0 (length (filter (\<lambda>r. id_eq v (col_id r)) (usuarios s)))),
      s\<lparr>usuarios :=
          map (\<lambda>r. if id_eq v (col_id r)
                   then r\<lparr>col_nombre := n, col_telefono := t, col_email := e\<rparr> else r)
            (usuarios s)\<rparr>)"

definition delete_by_id :: "(jsval \<Rightarrow> nat \<Rightarrow> bool) \<Rightarrow> jsval \<Rightarrow> store \<Rightarrow> outcome \<times> store" where
  "delete_by_id id_eq v s =
     (Success (header 0 (length (filter (\<lambda>r. id_eq v (col_id r)) (usuarios s)))),
      s\<lparr>usuarios := filter (\<lambda>r. \<not> id_eq v (col_id r)) (usuarios s)\<rparr>)"

definition db_query :: "(jsval \<Rightarrow> nat \<Rightarrow> bool) \<Rightarrow> store driver" where
  "db_query id_eq sql vals s =
     (case fault s of
        Some msg \<Rightarrow> (Failure msg, s)
      | None \<Rightarrow>
          if sql = ''SELECT * FROM usuarios'' \<and> vals = [] then select_all s
          else if sql = ''SELECT * FROM usuarios WHERE id = ?'' \<and> length vals = 1
            then select_by_id id_eq (vals ! 0) s
          else if sql = ''INSERT INTO usuarios (nombre, telefono, email) VALUES (?, ?, ?)''
                  \<and> length vals = 3
            then insert_row (vals ! 0) (vals ! 1) (vals ! 2) s
          else if sql = ''UPDATE usuarios SET nombre = ?, telefono = ?, email = ? WHERE id = ?''
                  \<and> length vals = 4
            then update_by_id id_eq (vals ! 0) (vals ! 1) (vals ! 2) (vals ! 3) s
          else if sql = ''DELETE FROM usuarios WHERE id = ?'' \<and> length vals = 1
            then delete_by_id id_eq (vals ! 0) s
          else (Failure ''ER_PARSE_ERROR'', s))"

text \<open>
  One comparison of the column \<open>id\<close> with a bound value, used where a concrete store is
  run: a bound text equals the \<open>id\<close> whose decimal numeral it is.
\<close>

definition digit_of :: "char \<Rightarrow> nat option" where
  "digit_of c =
     (let n = (of_char c :: nat) in if 48 \<le> n \<and> n \<le> 57 then Some (n - 48) else None)"

fun decimal_acc :: "nat \<Rightarrow> string \<Rightarrow> nat option" where
  "decimal_acc a [] = Some a"
| "decimal_acc a (c # cs) =
     (case digit_of c of None \<Rightarrow> None | Some d \<Rightarrow> decimal_acc (10 * a + d) cs)"

definition decimal :: "string \<Rightarrow> nat option" where
  "decimal cs = (if cs = [] then None else decimal_acc 0 cs)"

fun decimal_id_eq :: "jsval \<Rightarrow> nat \<Rightarrow> bool" where
  "decimal_id_eq (JStr cs) i = (decimal cs = Some i)"
| "decimal_id_eq (JNum q) i = (q = of_nat i)"
| "decimal_id_eq v i = False"

text \<open>Every \<open>id\<close> in the table was handed out before the next one to be generated.\<close>

definition ids_below :: "store \<Rightarrow> bool" where
  "ids_below s = list_all (\<lambda>r. col_id r < auto_increment s) (usuarios s)"

text \<open>A store that holds one record, for running the endpoints on.\<close>

definition store_ana :: store where
  "store_ana =
     \<lparr>usuarios = [\<lparr>col_id = 1, col_nombre = JStr ''Ana'', col_telefono = JNull,
                    col_email = JStr ''ana@x.com''\<rparr>],
      auto_increment = 2, fault = None\<rparr>"

section \<open>Properties of the endpoints\<close>

lemmas handler_defs = app_get_usuarios_def app_get_usuarios_id_def app_put_usuarios_id_def
  app_delete_usuarios_id_def

lemmas callback_defs = get_usuarios_cb_def get_usuarios_id_cb_def post_usuarios_cb_def
  put_usuarios_id_cb_def delete_usuarios_id_cb_def

lemma db_query_fault: "fault s = Some msg \<Longrightarrow> db_query id_eq sql vals s = (Failure msg, s)"
  by (simp add: db_query_def)

lemma db_query_select_by_id:
  "fault s = None \<Longrightarrow>
   db_query id_eq ''SELECT * FROM usuarios WHERE id = ?'' [v] s = select_by_id id_eq v s"
  by (simp add: db_query_def)

lemma db_query_insert:
  "fault s = None \<Longrightarrow>
   db_query id_eq ''INSERT INTO usuarios (nombre, telefono, email) VALUES (?, ?, ?)'' [n, t, e] s =
     insert_row n t e s"
  by (simp add: db_query_def)

lemma db_query_update:
  "fault s = None \<Longrightarrow>
   db_query id_eq ''UPDATE usuarios SET nombre = ?, telefono = ?, email = ? WHERE id = ?''
     [n, t, e, v] s = update_by_id id_eq n t e v s"
  by (simp add: db_query_def)

lemma db_query_delete:
  "fault s = None \<Longrightarrow>
   db_query id_eq ''DELETE FROM usuarios WHERE id = ?'' [v] s = delete_by_id id_eq v s"
  by (simp add: db_query_def)

lemmas response_defs = res_json_def res_status_json_def error_json_def message_json_def

lemma post_rejects:
  assumes "\<not> truthy (own_prop (body req) ''nombre'') \<or> \<not> truthy (own_prop (body req) ''email'')"
  shows "app_post_usuarios req =
           Respond \<lparr>status = 400, json = JObj [(''message'', JStr ''Nombre y email son obligatorios'')]\<rparr>"
  using assms by (auto simp: app_post_usuarios_def Let_def response_defs)

lemma post_accepts:
  assumes "truthy (own_prop (body req) ''nombre'')" and "truthy (own_prop (body req) ''email'')"
  shows "app_post_usuarios req =
           Query ''INSERT INTO usuarios (nombre, telefono, email) VALUES (?, ?, ?)''
             [own_prop (body req) ''nombre'', own_prop (body req) ''telefono'',
              own_prop (body req) ''email'']
             (post_usuarios_cb (own_prop (body req) ''nombre'') (own_prop (body req) ''telefono'')
                (own_prop (body req) ''email''))"
  using assms by (simp add: app_post_usuarios_def Let_def)

lemma own_prop_absent: "map_of kvs k = None \<Longrightarrow> own_prop kvs k = JUndefined"
  by (simp add: own_prop_def)

text \<open>
  C1. A Create request whose body has no \<open>nombre\<close> property (the name field) or no
  \<open>email\<close> property is answered with status 400 and the body
  \<open>{"message":"Nombre y email son obligatorios"}\<close>; the handler issues no statement,
  so whatever the driver is, the store is left as it was.
\<close>

theorem create_missing_field_rejected:
  assumes "map_of (body req) ''nombre'' = None \<or> map_of (body req) ''email'' = None"
  shows "serve db (app_post_usuarios req) s =
           (\<lparr>status = 400, json = JObj [(''message'', JStr ''Nombre y email son obligatorios'')]\<rparr>, s)
         \<and> issued (app_post_usuarios req) = None"
proof -
  from assms
  have "\<not> truthy (own_prop (body req) ''nombre'') \<or> \<not> truthy (own_prop (body req) ''email'')"
    by (auto simp: own_prop_absent)
  then show ?thesis
    by (simp add: post_rejects)
qed

theorem create_missing_field_rejected_witness:
  "serve (db_query decimal_id_eq)
     (app_post_usuarios \<lparr>params_id = [], body = [(''telefono'', JStr ''123'')]\<rparr>) empty_store =
     (\<lparr>status = 400, json = JObj [(''message'', JStr ''Nombre y email son obligatorios'')]\<rparr>,
      empty_store)
   \<and> issued (app_post_usuarios \<lparr>params_id = [], body = [(''telefono'', JStr ''123'')]\<rparr>) = None"
  using create_missing_field_rejected
          [of "\<lparr>params_id = [], body = [(''telefono'', JStr ''123'')]\<rparr>"
              "db_query decimal_id_eq" empty_store]
  by simp

text \<open>
  C9. Create is refused exactly when \<open>nombre\<close> or \<open>email\<close> is falsy: then the
  answer is status 400 with \<open>{"message":"Nombre y email son obligatorios"}\<close>, no
  statement is issued and the store is left as it was. The empty string for either
  property is one such value.
\<close>

theorem create_rejects_falsy:
  "(issued (app_post_usuarios req) = None) =
     (\<not> truthy (own_prop (body req) ''nombre'') \<or> \<not> truthy (own_prop (body req) ''email''))
   \<and> (\<not> truthy (own_prop (body req) ''nombre'') \<or> \<not> truthy (own_prop (body req) ''email'') \<longrightarrow>
        serve db (app_post_usuarios req) s =
          (\<lparr>status = 400, json = JObj [(''message'', JStr ''Nombre y email son obligatorios'')]\<rparr>, s))
   \<and> (own_prop (body req) ''nombre'' = JStr [] \<or> own_prop (body req) ''email'' = JStr [] \<longrightarrow>
        serve db (app_post_usuarios req) s =
          (\<lparr>status = 400, json = JObj [(''message'', JStr ''Nombre y email son obligatorios'')]\<rparr>, s))"
proof (cases "\<not> truthy (own_prop (body req) ''nombre'') \<or> \<not> truthy (own_prop (body req) ''email'')")
  case True
  then show ?thesis by (simp add: post_rejects)
next
  case False
  then have t: "truthy (own_prop (body req) ''nombre'')" "truthy (own_prop (body req) ''email'')"
    by simp_all
  have "issued (app_post_usuarios req) \<noteq> None"
    by (simp add: post_accepts [OF t])
  with False t show ?thesis by auto
qed

theorem create_rejects_falsy_witness:
  "serve (db_query decimal_id_eq)
     (app_post_usuarios \<lparr>params_id = [], body = [(''nombre'', JStr []), (''email'', JStr ''ana@x.com'')]\<rparr>)
     empty_store =
     (\<lparr>status = 400, json = JObj [(''message'', JStr ''Nombre y email son obligatorios'')]\<rparr>,
      empty_store)
   \<and> issued (app_post_usuarios
        \<lparr>params_id = [], body = [(''nombre'', JStr []), (''email'', JStr ''ana@x.com'')]\<rparr>) = None"
  using create_rejects_falsy
          [of "\<lparr>params_id = [], body = [(''nombre'', JStr []), (''email'', JStr ''ana@x.com'')]\<rparr>"
              "db_query decimal_id_eq" empty_store]
  by (simp add: own_prop_def)

text \<open>
  C2, as stated: the handler reads \<open>nombre\<close>, not \<open>name\<close>. A Create request with
  body \<open>{"name":"Ana","email":"ana@x.com"}\<close> on the empty store is answered with status
  400 and leaves the store empty; the answer is not the 201 record.
\<close>

theorem create_name_key_counterexample:
  "serve (db_query decimal_id_eq)
     (app_post_usuarios \<lparr>params_id = [], body = [(''name'', JStr ''Ana''), (''email'', JStr ''ana@x.com'')]\<rparr>)
     empty_store =
     (\<lparr>status = 400, json = JObj [(''message'', JStr ''Nombre y email son obligatorios'')]\<rparr>,
      empty_store)
   \<and> fst (serve (db_query decimal_id_eq)
        (app_post_usuarios \<lparr>params_id = [], body = [(''name'', JStr ''Ana''), (''email'', JStr ''ana@x.com'')]\<rparr>)
        empty_store) \<noteq>
      \<lparr>status = 201,
        json = JObj [(''id'', JNum 1), (''nombre'', JStr ''Ana''), (''telefono'', JUndefined),
                     (''email'', JStr ''ana@x.com'')]\<rparr>"
  by (simp add: app_post_usuarios_def own_prop_def response_defs)

text \<open>
  C2, amended: a Create request with body \<open>{"nombre":"Ana","email":"ana@x.com"}\<close>, the
  first record in an empty store, is answered with status 201 and the object
  \<open>{id: 1, nombre: "Ana", telefono: undefined, email: "ana@x.com"}\<close>, and the store then
  holds one record, under the generated id 1. With any driver, when the INSERT comes
  back without an error the answer is 201 with the \<open>insertId\<close> of its result as
  \<open>id\<close>.
\<close>

theorem create_nombre_key_first_record:
  "fst (serve (db_query id_eq)
     (app_post_usuarios \<lparr>params_id = p, body = [(''nombre'', JStr ''Ana''), (''email'', JStr ''ana@x.com'')]\<rparr>)
     empty_store) =
     \<lparr>status = 201,
       json = JObj [(''id'', JNum 1), (''nombre'', JStr ''Ana''), (''telefono'', JUndefined),
                    (''email'', JStr ''ana@x.com'')]\<rparr>
   \<and> map col_id (usuarios (snd (serve (db_query id_eq)
     (app_post_usuarios \<lparr>params_id = p, body = [(''nombre'', JStr ''Ana''), (''email'', JStr ''ana@x.com'')]\<rparr>)
     empty_store))) = [1]
   \<and> (db ''INSERT INTO usuarios (nombre, telefono, email) VALUES (?, ?, ?)''
         [JStr ''Ana'', JUndefined, JStr ''ana@x.com''] s = (Success result, s') \<longrightarrow>
       serve db
         (app_post_usuarios \<lparr>params_id = p, body = [(''nombre'', JStr ''Ana''), (''email'', JStr ''ana@x.com'')]\<rparr>)
         s =
         (\<lparr>status = 201,
           json = JObj [(''id'', result_insertId result), (''nombre'', JStr ''Ana''),
                        (''telefono'', JUndefined), (''email'', JStr ''ana@x.com'')]\<rparr>, s'))"
proof -
  let ?req = "\<lparr>params_id = p, body = [(''nombre'', JStr ''Ana''), (''email'', JStr ''ana@x.com'')]\<rparr>"
  have issue: "app_post_usuarios ?req =
      Query ''INSERT INTO usuarios (nombre, telefono, email) VALUES (?, ?, ?)''
        [JStr ''Ana'', JUndefined, JStr ''ana@x.com'']
        (post_usuarios_cb (JStr ''Ana'') JUndefined (JStr ''ana@x.com''))"
    by (simp add: app_post_usuarios_def Let_def own_prop_def)
  have first: "db_query id_eq ''INSERT INTO usuarios (nombre, telefono, email) VALUES (?, ?, ?)''
        [JStr ''Ana'', JUndefined, JStr ''ana@x.com''] empty_store =
      (Success (header 1 1),
       \<lparr>usuarios = [\<lparr>col_id = 1, col_nombre = JStr ''Ana'', col_telefono = JUndefined,
                      col_email = JStr ''ana@x.com''\<rparr>],
        auto_increment = 2, fault = None\<rparr>)"
    by (simp add: db_query_insert insert_row_def empty_store_def)
  have created: "post_usuarios_cb n t e (Success r) =
      \<lparr>status = 201,
        json = JObj [(''id'', result_insertId r), (''nombre'', n), (''telefono'', t), (''email'', e)]\<rparr>"
    for n t e r
    by (simp add: post_usuarios_cb_def response_defs)
  have one: "result_insertId (header i a) = JNum (of_nat i)" for i a
    by (simp add: header_def own_prop_def)
  show ?thesis
    by (simp add: issue first created one)
qed

theorem create_nombre_key_first_record_witness:
  "serve (db_query decimal_id_eq)
     (app_post_usuarios \<lparr>params_id = [], body = [(''nombre'', JStr ''Ana''), (''email'', JStr ''ana@x.com'')]\<rparr>)
     empty_store =
     (\<lparr>status = 201,
       json = JObj [(''id'', JNum 1), (''nombre'', JStr ''Ana''), (''telefono'', JUndefined),
                    (''email'', JStr ''ana@x.com'')]\<rparr>,
      \<lparr>usuarios = [\<lparr>col_id = 1, col_nombre = JStr ''Ana'', col_telefono = JUndefined,
                     col_email = JStr ''ana@x.com''\<rparr>],
       auto_increment = 2, fault = None\<rparr>)"
proof -
  let ?s' = "\<lparr>usuarios = [\<lparr>col_id = 1, col_nombre = JStr ''Ana'', col_telefono = JUndefined,
                            col_email = JStr ''ana@x.com''\<rparr>],
              auto_increment = 2, fault = None\<rparr>"
  have first: "db_query decimal_id_eq
        ''INSERT INTO usuarios (nombre, telefono, email) VALUES (?, ?, ?)''
        [JStr ''Ana'', JUndefined, JStr ''ana@x.com''] empty_store = (Success (header 1 1), ?s')"
    by (simp add: db_query_insert insert_row_def empty_store_def)
  have one: "result_insertId (header i a) = JNum (of_nat i)" for i a
    by (simp add: header_def own_prop_def)
  show ?thesis
    using create_nombre_key_first_record
            [of decimal_id_eq "[]" "db_query decimal_id_eq" empty_store "header 1 1" ?s']
          first one
    by simp
qed

text \<open>
  C3. Whenever the single statement of an Update or of a Delete comes back from the
  driver without an error, whatever result header it carries (any number of affected
  rows, none included), the answer is status 200 with the confirmation message; and no
  Update or Delete is ever answered with 404.
\<close>

theorem update_delete_report_success:
  "(db ''UPDATE usuarios SET nombre = ?, telefono = ?, email = ? WHERE id = ?''
       [own_prop (body req) ''nombre'', own_prop (body req) ''telefono'',
        own_prop (body req) ''email'', JStr (params_id req)] s = (Success result, s') \<longrightarrow>
      serve db (app_put_usuarios_id req) s =
        (\<lparr>status = 200, json = JObj [(''message'', JStr ''Usuario actualizado correctamente'')]\<rparr>, s'))
   \<and> (db ''DELETE FROM usuarios WHERE id = ?'' [JStr (params_id req)] s = (Success result, s') \<longrightarrow>
      serve db (app_delete_usuarios_id req) s =
        (\<lparr>status = 200, json = JObj [(''message'', JStr ''Usuario eliminado correctamente'')]\<rparr>, s'))
   \<and> status (fst (serve db (app_put_usuarios_id req) s)) \<noteq> 404
   \<and> status (fst (serve db (app_delete_usuarios_id req) s)) \<noteq> 404"
  by (auto simp: handler_defs callback_defs response_defs split: prod.splits outcome.splits)

theorem update_delete_report_success_witness:
  "serve (db_query decimal_id_eq)
     (app_put_usuarios_id \<lparr>params_id = ''999'', body = [(''nombre'', JStr ''Ana'')]\<rparr>) empty_store =
     (\<lparr>status = 200, json = JObj [(''message'', JStr ''Usuario actualizado correctamente'')]\<rparr>,
      empty_store)
   \<and> serve (db_query decimal_id_eq)
     (app_delete_usuarios_id \<lparr>params_id = ''999'', body = []\<rparr>) empty_store =
     (\<lparr>status = 200, json = JObj [(''message'', JStr ''Usuario eliminado correctamente'')]\<rparr>,
      empty_store)"
proof -
  have u: "db_query decimal_id_eq
             ''UPDATE usuarios SET nombre = ?, telefono = ?, email = ? WHERE id = ?''
             [JStr ''Ana'', JUndefined, JUndefined, JStr ''999''] empty_store =
           (Success (header 0 0), empty_store)"
    by (simp add: db_query_update update_by_id_def empty_store_def)
  have d: "db_query decimal_id_eq ''DELETE FROM usuarios WHERE id = ?'' [JStr ''999''] empty_store =
           (Success (header 0 0), empty_store)"
    by (simp add: db_query_delete delete_by_id_def empty_store_def)
  show ?thesis
    using update_delete_report_success
            [of "db_query decimal_id_eq" "\<lparr>params_id = ''999'', body = [(''nombre'', JStr ''Ana'')]\<rparr>"
                empty_store "header 0 0" empty_store]
          update_delete_report_success
            [of "db_query decimal_id_eq" "\<lparr>params_id = ''999'', body = []\<rparr>"
                empty_store "header 0 0" empty_store]
          u d
    by (simp add: own_prop_def)
qed

text \<open>
  C4. When the query of a Get-by-id comes back without a driver error and with no row,
  the answer is status 404 with \<open>{"message":"Usuario no encontrado"}\<close>; when it comes
  back with exactly one row, the answer is status 200 with that row.
\<close>

theorem get_by_id_not_found_or_single:
  "(db ''SELECT * FROM usuarios WHERE id = ?'' [JStr (params_id req)] s = (Success (Rows []), s') \<longrightarrow>
      serve db (app_get_usuarios_id req) s =
        (\<lparr>status = 404, json = JObj [(''message'', JStr ''Usuario no encontrado'')]\<rparr>, s'))
   \<and> (db ''SELECT * FROM usuarios WHERE id = ?'' [JStr (params_id req)] s = (Success (Rows [r]), s') \<longrightarrow>
      serve db (app_get_usuarios_id req) s = (\<lparr>status = 200, json = r\<rparr>, s'))"
  by (simp add: handler_defs callback_defs response_defs)

theorem get_by_id_not_found_or_single_witness:
  "serve (db_query decimal_id_eq) (app_get_usuarios_id \<lparr>params_id = ''999'', body = []\<rparr>) store_ana =
     (\<lparr>status = 404, json = JObj [(''message'', JStr ''Usuario no encontrado'')]\<rparr>, store_ana)
   \<and> serve (db_query decimal_id_eq) (app_get_usuarios_id \<lparr>params_id = ''1'', body = []\<rparr>) store_ana =
     (\<lparr>status = 200,
       json = JObj [(''id'', JNum 1), (''nombre'', JStr ''Ana''), (''telefono'', JNull),
                    (''email'', JStr ''ana@x.com'')]\<rparr>, store_ana)"
proof -
  have a: "db_query decimal_id_eq ''SELECT * FROM usuarios WHERE id = ?'' [JStr ''999''] store_ana =
           (Success (Rows []), store_ana)"
    by (simp add: db_query_select_by_id select_by_id_def store_ana_def decimal_def digit_of_def)
  have b: "db_query decimal_id_eq ''SELECT * FROM usuarios WHERE id = ?'' [JStr ''1''] store_ana =
           (Success (Rows [JObj [(''id'', JNum 1), (''nombre'', JStr ''Ana''), (''telefono'', JNull),
                                 (''email'', JStr ''ana@x.com'')]]), store_ana)"
    by (simp add: db_query_select_by_id select_by_id_def store_ana_def decimal_def digit_of_def
        row_json_def)
  show ?thesis
    using get_by_id_not_found_or_single
            [of "db_query decimal_id_eq" "\<lparr>params_id = ''999'', body = []\<rparr>" store_ana store_ana]
          get_by_id_not_found_or_single
            [of "db_query decimal_id_eq" "\<lparr>params_id = ''1'', body = []\<rparr>" store_ana store_ana
                "JObj [(''id'', JNum 1), (''nombre'', JStr ''Ana''), (''telefono'', JNull),
                       (''email'', JStr ''ana@x.com'')]"]
          a b
    by simp
qed



text \<open>
  C8. Get-by-id, Update and Delete always issue one fixed statement text, and Create,
  when it issues a statement, issues a fixed text too; the \<open>id\<close>, \<open>nombre\<close>,
  \<open>telefono\<close> and \<open>email\<close> of the request appear only in the list of bound values.
  For every endpoint, two requests that both issue a statement issue the same text.
\<close>

theorem statements_are_constant_texts:
  "issued (app_get_usuarios_id req) =
     Some (''SELECT * FROM usuarios WHERE id = ?'', [JStr (params_id req)])
   \<and> issued (app_put_usuarios_id req) =
     Some (''UPDATE usuarios SET nombre = ?, telefono = ?, email = ? WHERE id = ?'',
           [own_prop (body req) ''nombre'', own_prop (body req) ''telefono'',
            own_prop (body req) ''email'', JStr (params_id req)])
   \<and> issued (app_delete_usuarios_id req) =
     Some (''DELETE FROM usuarios WHERE id = ?'', [JStr (params_id req)])
   \<and> (issued (app_post_usuarios req) = None
      \<or> issued (app_post_usuarios req) =
          Some (''INSERT INTO usuarios (nombre, telefono, email) VALUES (?, ?, ?)'',
                [own_prop (body req) ''nombre'', own_prop (body req) ''telefono'',
                 own_prop (body req) ''email'']))
   \<and> (\<forall>h \<in> {app_get_usuarios, app_get_usuarios_id, app_post_usuarios, app_put_usuarios_id,
              app_delete_usuarios_id}.
        \<forall>req'. issued (h req) \<noteq> None \<longrightarrow> issued (h req') \<noteq> None \<longrightarrow>
          map_option fst (issued (h req)) = map_option fst (issued (h req')))"
proof -
  have post: "issued (app_post_usuarios r) = None
      \<or> issued (app_post_usuarios r) =
          Some (''INSERT INTO usuarios (nombre, telefono, email) VALUES (?, ?, ?)'',
                [own_prop (body r) ''nombre'', own_prop (body r) ''telefono'',
                 own_prop (body r) ''email''])" for r
    by (cases "truthy (own_prop (body r) ''nombre'') \<and> truthy (own_prop (body r) ''email'')")
      (auto simp: post_accepts post_rejects)
  have same: "map_option fst (issued (h req)) = map_option fst (issued (h req'))"
    if "h \<in> {app_get_usuarios, app_get_usuarios_id, app_post_usuarios, app_put_usuarios_id,
              app_delete_usuarios_id}"
      and "issued (h req) \<noteq> None" and "issued (h req') \<noteq> None" for h req'
  proof -
    consider "h = app_get_usuarios" | "h = app_get_usuarios_id" | "h = app_post_usuarios"
      | "h = app_put_usuarios_id" | "h = app_delete_usuarios_id"
      using \<open>h \<in> _\<close> by auto
    then show ?thesis
    proof cases
      case 3
      with post [of req] post [of req'] that(2,3) show ?thesis by auto
    qed (simp_all add: handler_defs)
  qed
  have others: "issued (app_get_usuarios_id req) =
       Some (''SELECT * FROM usuarios WHERE id = ?'', [JStr (params_id req)])"
    "issued (app_put_usuarios_id req) =
       Some (''UPDATE usuarios SET nombre = ?, telefono = ?, email = ? WHERE id = ?'',
             [own_prop (body req) ''nombre'', own_prop (body req) ''telefono'',
              own_prop (body req) ''email'', JStr (params_id req)])"
    "issued (app_delete_usuarios_id req) =
       Some (''DELETE FROM usuarios WHERE id = ?'', [JStr (params_id req)])"
    by (simp_all add: handler_defs)
  from others post [of req] same show ?thesis
    by blast
qed

theorem statements_are_constant_texts_witness:
  "issued (app_put_usuarios_id
      \<lparr>params_id = ''1 OR 1=1'', body = [(''nombre'', JStr ''x'')]\<rparr>) =
     Some (''UPDATE usuarios SET nombre = ?, telefono = ?, email = ? WHERE id = ?'',
           [JStr ''x'', JUndefined, JUndefined, JStr ''1 OR 1=1''])
   \<and> map_option fst (issued (app_delete_usuarios_id
         \<lparr>params_id = ''1 OR 1=1'', body = [(''nombre'', JStr ''x'')]\<rparr>)) =
     map_option fst (issued (app_delete_usuarios_id \<lparr>params_id = ''2'', body = []\<rparr>))"
proof -
  let ?req = "\<lparr>params_id = ''1 OR 1=1'', body = [(''nombre'', JStr ''x'')]\<rparr>"
  note all = statements_are_constant_texts [of ?req]
  from all have "issued (app_put_usuarios_id ?req) =
     Some (''UPDATE usuarios SET nombre = ?, telefono = ?, email = ? WHERE id = ?'',
           [own_prop (body ?req) ''nombre'', own_prop (body ?req) ''telefono'',
            own_prop (body ?req) ''email'', JStr (params_id ?req)])"
    by (rule conjunct2 [THEN conjunct1])
  then have put: "issued (app_put_usuarios_id ?req) =
     Some (''UPDATE usuarios SET nombre = ?, telefono = ?, email = ? WHERE id = ?'',
           [JStr ''x'', JUndefined, JUndefined, JStr ''1 OR 1=1''])"
    by (simp add: own_prop_def)
  from all have "\<forall>h \<in> {app_get_usuarios, app_get_usuarios_id, app_post_usuarios,
                     app_put_usuarios_id, app_delete_usuarios_id}.
        \<forall>req'. issued (h ?req) \<noteq> None \<longrightarrow> issued (h req') \<noteq> None \<longrightarrow>
          map_option fst (issued (h ?req)) = map_option fst (issued (h req'))"
    by (rule conjunct2 [THEN conjunct2, THEN conjunct2, THEN conjunct2])
  then have "\<forall>req'. issued (app_delete_usuarios_id ?req) \<noteq> None \<longrightarrow>
          issued (app_delete_usuarios_id req') \<noteq> None \<longrightarrow>
          map_option fst (issued (app_delete_usuarios_id ?req)) =
          map_option fst (issued (app_delete_usuarios_id req'))"
    by (rule bspec) simp
  then have "issued (app_delete_usuarios_id ?req) \<noteq> None \<longrightarrow>
          issued (app_delete_usuarios_id \<lparr>params_id = ''2'', body = []\<rparr>) \<noteq> None \<longrightarrow>
          map_option fst (issued (app_delete_usuarios_id ?req)) =
          map_option fst (issued (app_delete_usuarios_id \<lparr>params_id = ''2'', body = []\<rparr>))"
    by (rule spec)
  moreover have "issued (app_delete_usuarios_id ?req) \<noteq> None"
    "issued (app_delete_usuarios_id \<lparr>params_id = ''2'', body = []\<rparr>) \<noteq> None"
    by (simp_all add: app_delete_usuarios_id_def)
  ultimately have "map_option fst (issued (app_delete_usuarios_id ?req)) =
          map_option fst (issued (app_delete_usuarios_id \<lparr>params_id = ''2'', body = []\<rparr>))"
    by blast
  with put show ?thesis
    by blast
qed

text \<open>
  C10. The \<open>:id\<close> of the path is never parsed or validated by Get-by-id, Update or
  Delete: for every text \<open>i\<close>, numeric or not, the bound value is the text itself, and
  none of the three ever answers 400. When the query of a Get-by-id comes back with no
  row the answer is 404, and when the statement of an Update or of a Delete comes back
  without an error the answer is the 200 confirmation.
\<close>

theorem id_is_never_validated:
  "issued (app_get_usuarios_id \<lparr>params_id = i, body = b\<rparr>) =
     Some (''SELECT * FROM usuarios WHERE id = ?'', [JStr i])
   \<and> issued (app_put_usuarios_id \<lparr>params_id = i, body = b\<rparr>) =
     Some (''UPDATE usuarios SET nombre = ?, telefono = ?, email = ? WHERE id = ?'',
           [own_prop b ''nombre'', own_prop b ''telefono'', own_prop b ''email'', JStr i])
   \<and> issued (app_delete_usuarios_id \<lparr>params_id = i, body = b\<rparr>) =
     Some (''DELETE FROM usuarios WHERE id = ?'', [JStr i])
   \<and> status (fst (serve db (app_get_usuarios_id \<lparr>params_id = i, body = b\<rparr>) s)) \<noteq> 400
   \<and> status (fst (serve db (app_put_usuarios_id \<lparr>params_id = i, body = b\<rparr>) s)) \<noteq> 400
   \<and> status (fst (serve db (app_delete_usuarios_id \<lparr>params_id = i, body = b\<rparr>) s)) \<noteq> 400
   \<and> (db ''SELECT * FROM usuarios WHERE id = ?'' [JStr i] s = (Success (Rows []), s') \<longrightarrow>
        serve db (app_get_usuarios_id \<lparr>params_id = i, body = b\<rparr>) s =
          (\<lparr>status = 404, json = JObj [(''message'', JStr ''Usuario no encontrado'')]\<rparr>, s'))
   \<and> (db ''UPDATE usuarios SET nombre = ?, telefono = ?, email = ? WHERE id = ?''
          [own_prop b ''nombre'', own_prop b ''telefono'', own_prop b ''email'', JStr i] s =
          (Success result, s') \<longrightarrow>
        serve db (app_put_usuarios_id \<lparr>params_id = i, body = b\<rparr>) s =
          (\<lparr>status = 200, json = JObj [(''message'', JStr ''Usuario actualizado correctamente'')]\<rparr>, s'))
   \<and> (db ''DELETE FROM usuarios WHERE id = ?'' [JStr i] s = (Success result, s') \<longrightarrow>
        serve db (app_delete_usuarios_id \<lparr>params_id = i, body = b\<rparr>) s =
          (\<lparr>status = 200, json = JObj [(''message'', JStr ''Usuario eliminado correctamente'')]\<rparr>, s'))"
proof -
  have bound: "issued (app_get_usuarios_id \<lparr>params_id = i, body = b\<rparr>) =
       Some (''SELECT * FROM usuarios WHERE id = ?'', [JStr i])"
    "issued (app_put_usuarios_id \<lparr>params_id = i, body = b\<rparr>) =
       Some (''UPDATE usuarios SET nombre = ?, telefono = ?, email = ? WHERE id = ?'',
             [own_prop b ''nombre'', own_prop b ''telefono'', own_prop b ''email'', JStr i])"
    "issued (app_delete_usuarios_id \<lparr>params_id = i, body = b\<rparr>) =
       Some (''DELETE FROM usuarios WHERE id = ?'', [JStr i])"
    by (simp_all add: handler_defs)
  have g: "status (get_usuarios_id_cb out) \<noteq> 400" for out
    by (simp add: get_usuarios_id_cb_def response_defs split: outcome.splits)
  have p: "status (put_usuarios_id_cb out) \<noteq> 400" for out
    by (simp add: put_usuarios_id_cb_def response_defs split: outcome.splits)
  have d: "status (delete_usuarios_id_cb out) \<noteq> 400" for out
    by (simp add: delete_usuarios_id_cb_def response_defs split: outcome.splits)
  have never: "status (fst (serve db (app_get_usuarios_id \<lparr>params_id = i, body = b\<rparr>) s)) \<noteq> 400"
    "status (fst (serve db (app_put_usuarios_id \<lparr>params_id = i, body = b\<rparr>) s)) \<noteq> 400"
    "status (fst (serve db (app_delete_usuarios_id \<lparr>params_id = i, body = b\<rparr>) s)) \<noteq> 400"
    by (simp_all add: handler_defs g p d split: prod.splits)
  have ok: "db ''SELECT * FROM usuarios WHERE id = ?'' [JStr i] s = (Success (Rows []), s') \<longrightarrow>
        serve db (app_get_usuarios_id \<lparr>params_id = i, body = b\<rparr>) s =
          (\<lparr>status = 404, json = JObj [(''message'', JStr ''Usuario no encontrado'')]\<rparr>, s')"
    "db ''UPDATE usuarios SET nombre = ?, telefono = ?, email = ? WHERE id = ?''
          [own_prop b ''nombre'', own_prop b ''telefono'', own_prop b ''email'', JStr i] s =
          (Success result, s') \<longrightarrow>
        serve db (app_put_usuarios_id \<lparr>params_id = i, body = b\<rparr>) s =
          (\<lparr>status = 200, json = JObj [(''message'', JStr ''Usuario actualizado correctamente'')]\<rparr>, s')"
    "db ''DELETE FROM usuarios WHERE id = ?'' [JStr i] s = (Success result, s') \<longrightarrow>
        serve db (app_delete_usuarios_id \<lparr>params_id = i, body = b\<rparr>) s =
          (\<lparr>status = 200, json = JObj [(''message'', JStr ''Usuario eliminado correctamente'')]\<rparr>, s')"
    by (simp_all add: handler_defs callback_defs response_defs)
  from bound never ok show ?thesis
    by blast
qed

theorem id_is_never_validated_witness:
  "serve (db_query decimal_id_eq) (app_get_usuarios_id \<lparr>params_id = ''abc'', body = []\<rparr>) store_ana =
     (\<lparr>status = 404, json = JObj [(''message'', JStr ''Usuario no encontrado'')]\<rparr>, store_ana)
   \<and> serve (db_query decimal_id_eq) (app_put_usuarios_id \<lparr>params_id = ''abc'', body = []\<rparr>) store_ana =
     (\<lparr>status = 200, json = JObj [(''message'', JStr ''Usuario actualizado correctamente'')]\<rparr>,
      store_ana)
   \<and> serve (db_query decimal_id_eq) (app_delete_usuarios_id \<lparr>params_id = ''abc'', body = []\<rparr>) store_ana =
     (\<lparr>status = 200, json = JObj [(''message'', JStr ''Usuario eliminado correctamente'')]\<rparr>,
      store_ana)"
proof -
  have a: "db_query decimal_id_eq ''SELECT * FROM usuarios WHERE id = ?'' [JStr ''abc''] store_ana =
           (Success (Rows []), store_ana)"
    by (simp add: db_query_select_by_id select_by_id_def store_ana_def decimal_def digit_of_def)
  have u: "db_query decimal_id_eq
             ''UPDATE usuarios SET nombre = ?, telefono = ?, email = ? WHERE id = ?''
             [JUndefined, JUndefined, JUndefined, JStr ''abc''] store_ana =
           (Success (header 0 0), store_ana)"
    by (simp add: db_query_update update_by_id_def store_ana_def decimal_def digit_of_def)
  have d: "db_query decimal_id_eq ''DELETE FROM usuarios WHERE id = ?'' [JStr ''abc''] store_ana =
           (Success (header 0 0), store_ana)"
    by (simp add: db_query_delete delete_by_id_def store_ana_def decimal_def digit_of_def)
  show ?thesis
    using id_is_never_validated
            [of "''abc''" "[]" "db_query decimal_id_eq" store_ana store_ana "header 0 0"] a u d
    by (simp add: own_prop_def)
qed

subsection \<open>The endpoints on the modelled store\<close>

lemma serve_put_status_200:
  assumes "status (fst (serve (db_query id_eq) (app_put_usuarios_id req) s)) = 200"
  shows "fault s = None"
proof (cases "fault s")
  case (Some msg)
  with assms show ?thesis
    by (simp add: handler_defs db_query_fault callback_defs response_defs)
qed simp

lemma serve_delete_status_200:
  assumes "status (fst (serve (db_query id_eq) (app_delete_usuarios_id req) s)) = 200"
  shows "fault s = None"
proof (cases "fault s")
  case (Some msg)
  with assms show ?thesis
    by (simp add: handler_defs db_query_fault callback_defs response_defs)
qed simp

lemma filter_updated:
  "filter (\<lambda>r. id_eq v (col_id r))
     (map (\<lambda>r. if id_eq v (col_id r)
               then r\<lparr>col_nombre := n, col_telefono := t, col_email := e\<rparr> else r) xs) =
   map (\<lambda>r. r\<lparr>col_nombre := n, col_telefono := t, col_email := e\<rparr>)
     (filter (\<lambda>r. id_eq v (col_id r)) xs)"
  by (induction xs) simp_all

lemma serve_put:
  assumes "fault s = None"
  shows "serve (db_query id_eq) (app_put_usuarios_id req) s =
           (\<lparr>status = 200, json = JObj [(''message'', JStr ''Usuario actualizado correctamente'')]\<rparr>,
            s\<lparr>usuarios :=
               map (\<lambda>r. if id_eq (JStr (params_id req)) (col_id r)
                        then r\<lparr>col_nombre := own_prop (body req) ''nombre'',
                               col_telefono := own_prop (body req) ''telefono'',
                               col_email := own_prop (body req) ''email''\<rparr> else r)
                 (usuarios s)\<rparr>)"
  using assms
  by (simp add: handler_defs db_query_update update_by_id_def callback_defs response_defs)

lemma serve_delete:
  assumes "fault s = None"
  shows "serve (db_query id_eq) (app_delete_usuarios_id req) s =
           (\<lparr>status = 200, json = JObj [(''message'', JStr ''Usuario eliminado correctamente'')]\<rparr>,
            s\<lparr>usuarios := filter (\<lambda>r. \<not> id_eq (JStr (params_id req)) (col_id r)) (usuarios s)\<rparr>)"
  using assms
  by (simp add: handler_defs db_query_delete delete_by_id_def callback_defs response_defs)

lemma serve_get_by_id:
  assumes "fault s = None"
  shows "serve (db_query id_eq) (app_get_usuarios_id req) s =
           (get_usuarios_id_cb
              (Success (Rows (map row_json
                 (filter (\<lambda>r. id_eq (JStr (params_id req)) (col_id r)) (usuarios s))))), s)"
  using assms
  by (simp add: handler_defs db_query_select_by_id select_by_id_def)

lemma get_cb_first_row:
  "get_usuarios_id_cb (Success (Rows (r # rs))) = \<lparr>status = 200, json = r\<rparr>"
  by (simp add: get_usuarios_id_cb_def response_defs)

lemma get_cb_no_row:
  "get_usuarios_id_cb (Success (Rows [])) =
     \<lparr>status = 404, json = JObj [(''message'', JStr ''Usuario no encontrado'')]\<rparr>"
  by (simp add: get_usuarios_id_cb_def response_defs)

lemma row_json_fields:
  "js_get (row_json r) ''nombre'' = col_nombre r"
  "js_get (row_json r) ''telefono'' = col_telefono r"
  "js_get (row_json r) ''email'' = col_email r"
  "js_get (row_json r) ''id'' = JNum (of_nat (col_id r))"
  by (simp_all add: row_json_def own_prop_def)

lemma serve_post_id:
  assumes "fault s = None"
  shows "js_get (json (fst (serve (db_query id_eq) (app_post_usuarios c) s))) ''id'' = JUndefined
       \<or> js_get (json (fst (serve (db_query id_eq) (app_post_usuarios c) s))) ''id'' =
           JNum (of_nat (auto_increment s))"
proof (cases "truthy (own_prop (body c) ''nombre'') \<and> truthy (own_prop (body c) ''email'')")
  case True
  then show ?thesis
    using assms
    by (simp add: post_accepts db_query_insert insert_row_def header_def post_usuarios_cb_def
        response_defs own_prop_def)
next
  case False
  then show ?thesis
    by (auto simp: post_rejects own_prop_def)
qed

lemma ids_below_empty_store: "ids_below empty_store"
  by (simp add: ids_below_def empty_store_def)

lemma ids_below_db_query:
  assumes "ids_below s"
  shows "ids_below (snd (db_query id_eq sql vals s))"
proof -
  have upd: "col_id (if P then r\<lparr>col_nombre := n, col_telefono := t, col_email := e\<rparr> else r) = col_id r"
    for P r n t e
    by simp
  from assms show ?thesis
    by (auto simp: db_query_def ids_below_def list_all_iff select_all_def select_by_id_def
        insert_row_def update_by_id_def delete_by_id_def upd less_Suc_eq
        split: option.splits)
qed

text \<open>
  C5. On the store as modelled above: for a request whose \<open>id\<close> equals that of a
  record in the store and whose body carries \<open>nombre\<close>, \<open>telefono\<close> and
  \<open>email\<close>, when the Update is answered with 200, the Get-by-id on the same \<open>id\<close>
  that follows is answered with 200 and a record whose \<open>nombre\<close>, \<open>telefono\<close>
  and \<open>email\<close> are the values of the Update's body.
\<close>

theorem update_then_get_by_id:
  assumes same_id: "params_id req' = params_id req"
    and existing: "\<exists>r \<in> set (usuarios s). id_eq (JStr (params_id req)) (col_id r)"
    and sent: "own_prop (body req) ''nombre'' \<noteq> JUndefined"
      "own_prop (body req) ''telefono'' \<noteq> JUndefined"
      "own_prop (body req) ''email'' \<noteq> JUndefined"
    and update: "serve (db_query id_eq) (app_put_usuarios_id req) s = (r1, s1)"
    and updated: "status r1 = 200"
    and get: "serve (db_query id_eq) (app_get_usuarios_id req') s1 = (r2, s2)"
  shows "status r2 = 200
       \<and> js_get (json r2) ''nombre'' = own_prop (body req) ''nombre''
       \<and> js_get (json r2) ''telefono'' = own_prop (body req) ''telefono''
       \<and> js_get (json r2) ''email'' = own_prop (body req) ''email''"
proof -
  let ?P = "\<lambda>r. id_eq (JStr (params_id req)) (col_id r)"
  let ?set = "\<lambda>r. r\<lparr>col_nombre := own_prop (body req) ''nombre'',
                      col_telefono := own_prop (body req) ''telefono'',
                      col_email := own_prop (body req) ''email''\<rparr>"
  from update updated have up: "fault s = None"
    using serve_put_status_200 [of id_eq req s] by simp
  from update have s1: "s1 = s\<lparr>usuarios := map (\<lambda>r. if ?P r then ?set r else r) (usuarios s)\<rparr>"
    by (simp add: serve_put [OF up])
  then have up1: "fault s1 = None"
    using up by simp
  from existing obtain y ys where found: "filter ?P (usuarios s) = y # ys"
    by (cases "filter ?P (usuarios s)") (auto simp: filter_empty_conv)
  have "filter ?P (usuarios s1) = map ?set (filter ?P (usuarios s))"
    by (simp add: s1 filter_updated)
  then have "filter ?P (usuarios s1) = ?set y # map ?set ys"
    by (simp add: found)
  then have "r2 = \<lparr>status = 200, json = row_json (?set y)\<rparr>"
    using get by (simp add: serve_get_by_id [OF up1] same_id get_cb_first_row)
  then show ?thesis
    by (simp add: row_json_fields)
qed

theorem update_then_get_by_id_witness:
  "serve (db_query decimal_id_eq)
     (app_get_usuarios_id \<lparr>params_id = ''1'', body = []\<rparr>)
     (snd (serve (db_query decimal_id_eq)
        (app_put_usuarios_id
           \<lparr>params_id = ''1'',
            body = [(''nombre'', JStr ''Eva''), (''telefono'', JStr ''600''), (''email'', JStr ''eva@x.com'')]\<rparr>)
        store_ana)) =
     (\<lparr>status = 200,
       json = JObj [(''id'', JNum 1), (''nombre'', JStr ''Eva''), (''telefono'', JStr ''600''),
                    (''email'', JStr ''eva@x.com'')]\<rparr>,
      store_ana\<lparr>usuarios := [\<lparr>col_id = 1, col_nombre = JStr ''Eva'', col_telefono = JStr ''600'',
                                col_email = JStr ''eva@x.com''\<rparr>]\<rparr>)
   \<and> js_get (json (fst (serve (db_query decimal_id_eq)
     (app_get_usuarios_id \<lparr>params_id = ''1'', body = []\<rparr>)
     (snd (serve (db_query decimal_id_eq)
        (app_put_usuarios_id
           \<lparr>params_id = ''1'',
            body = [(''nombre'', JStr ''Eva''), (''telefono'', JStr ''600''), (''email'', JStr ''eva@x.com'')]\<rparr>)
        store_ana))))) ''nombre'' = JStr ''Eva''"
proof -
  let ?req = "\<lparr>params_id = ''1'',
            body = [(''nombre'', JStr ''Eva''), (''telefono'', JStr ''600''), (''email'', JStr ''eva@x.com'')]\<rparr>"
  let ?req' = "\<lparr>params_id = ''1'', body = []\<rparr>"
  let ?s1 = "store_ana\<lparr>usuarios := [\<lparr>col_id = 1, col_nombre = JStr ''Eva'', col_telefono = JStr ''600'',
                                col_email = JStr ''eva@x.com''\<rparr>]\<rparr>"
  let ?r1 = "\<lparr>status = 200, json = JObj [(''message'', JStr ''Usuario actualizado correctamente'')]\<rparr>"
  let ?r2 = "\<lparr>status = 200,
       json = JObj [(''id'', JNum 1), (''nombre'', JStr ''Eva''), (''telefono'', JStr ''600''),
                    (''email'', JStr ''eva@x.com'')]\<rparr>"
  have u: "serve (db_query decimal_id_eq) (app_put_usuarios_id ?req) store_ana = (?r1, ?s1)"
    by (simp add: serve_put store_ana_def own_prop_def decimal_def digit_of_def)
  have g: "serve (db_query decimal_id_eq) (app_get_usuarios_id ?req') ?s1 = (?r2, ?s1)"
    by (simp add: serve_get_by_id store_ana_def decimal_def digit_of_def row_json_def
        get_cb_first_row)
  have e: "\<exists>r \<in> set (usuarios store_ana). decimal_id_eq (JStr (params_id ?req)) (col_id r)"
    by (simp add: store_ana_def decimal_def digit_of_def)
  have "status ?r2 = 200 \<and> js_get (json ?r2) ''nombre'' = own_prop (body ?req) ''nombre''
       \<and> js_get (json ?r2) ''telefono'' = own_prop (body ?req) ''telefono''
       \<and> js_get (json ?r2) ''email'' = own_prop (body ?req) ''email''"
    by (rule update_then_get_by_id [OF _ e _ _ _ u _ g]) (simp_all add: own_prop_def)
  then show ?thesis
    using u g by (simp add: own_prop_def)
qed

text \<open>
  C6. On the store as modelled above: when a Delete is answered with 200, the
  Get-by-id on the same \<open>id\<close> that follows is answered with 404 and
  \<open>{"message":"Usuario no encontrado"}\<close>; no row with that \<open>id\<close> is left in the
  store, and a Create served next is not given the \<open>id\<close> of any record that was in
  the store before the Delete.
\<close>

theorem delete_then_get_by_id:
  assumes same_id: "params_id req' = params_id req"
    and delete: "serve (db_query id_eq) (app_delete_usuarios_id req) s = (r1, s1)"
    and deleted: "status r1 = 200"
    and get: "serve (db_query id_eq) (app_get_usuarios_id req') s1 = (r2, s2)"
  shows "r2 = \<lparr>status = 404, json = JObj [(''message'', JStr ''Usuario no encontrado'')]\<rparr>
       \<and> (\<forall>r \<in> set (usuarios s1). \<not> id_eq (JStr (params_id req)) (col_id r))
       \<and> (ids_below s \<longrightarrow>
            (\<forall>r \<in> set (usuarios s). \<forall>c.
               js_get (json (fst (serve (db_query id_eq) (app_post_usuarios c) s1))) ''id'' \<noteq>
                 JNum (of_nat (col_id r))))"
proof -
  let ?P = "\<lambda>r. id_eq (JStr (params_id req)) (col_id r)"
  from delete deleted have up: "fault s = None"
    using serve_delete_status_200 [of id_eq req s] by simp
  from delete have s1: "s1 = s\<lparr>usuarios := filter (\<lambda>r. \<not> ?P r) (usuarios s)\<rparr>"
    by (simp add: serve_delete [OF up])
  then have up1: "fault s1 = None" and same_next: "auto_increment s1 = auto_increment s"
    using up by simp_all
  have gone: "\<forall>r \<in> set (usuarios s1). \<not> ?P r"
    by (simp add: s1)
  then have "filter ?P (usuarios s1) = []"
    by (simp add: filter_empty_conv)
  then have not_found: "r2 = \<lparr>status = 404, json = JObj [(''message'', JStr ''Usuario no encontrado'')]\<rparr>"
    using get by (simp add: serve_get_by_id [OF up1] same_id get_cb_no_row)
  have fresh: "js_get (json (fst (serve (db_query id_eq) (app_post_usuarios c) s1))) ''id'' \<noteq>
                 JNum (of_nat (col_id r))"
    if "ids_below s" and "r \<in> set (usuarios s)" for r c
  proof -
    from that have "col_id r < auto_increment s"
      by (simp add: ids_below_def list_all_iff)
    then have "(of_nat (auto_increment s) :: rat) \<noteq> of_nat (col_id r)"
      by simp
    with serve_post_id [OF up1, of id_eq c] same_next show ?thesis
      by auto
  qed
  from not_found gone fresh show ?thesis
    by blast
qed

theorem delete_then_get_by_id_witness:
  "serve (db_query decimal_id_eq) (app_get_usuarios_id \<lparr>params_id = ''1'', body = []\<rparr>)
     (snd (serve (db_query decimal_id_eq) (app_delete_usuarios_id \<lparr>params_id = ''1'', body = []\<rparr>)
        store_ana)) =
     (\<lparr>status = 404, json = JObj [(''message'', JStr ''Usuario no encontrado'')]\<rparr>,
      store_ana\<lparr>usuarios := []\<rparr>)
   \<and> js_get (json (fst (serve (db_query decimal_id_eq)
        (app_post_usuarios \<lparr>params_id = [], body = [(''nombre'', JStr ''Eva''), (''email'', JStr ''eva@x.com'')]\<rparr>)
        (store_ana\<lparr>usuarios := []\<rparr>)))) ''id'' \<noteq> JNum 1"
proof -
  let ?req = "\<lparr>params_id = ''1'', body = []\<rparr>"
  let ?s1 = "store_ana\<lparr>usuarios := []\<rparr>"
  let ?r1 = "\<lparr>status = 200, json = JObj [(''message'', JStr ''Usuario eliminado correctamente'')]\<rparr>"
  let ?r2 = "\<lparr>status = 404, json = JObj [(''message'', JStr ''Usuario no encontrado'')]\<rparr>"
  let ?ana = "\<lparr>col_id = 1, col_nombre = JStr ''Ana'', col_telefono = JNull,
               col_email = JStr ''ana@x.com''\<rparr>"
  have d: "serve (db_query decimal_id_eq) (app_delete_usuarios_id ?req) store_ana = (?r1, ?s1)"
    by (simp add: serve_delete store_ana_def decimal_def digit_of_def)
  have g: "serve (db_query decimal_id_eq) (app_get_usuarios_id ?req) ?s1 = (?r2, ?s1)"
    by (simp add: serve_get_by_id store_ana_def get_cb_no_row)
  have i: "ids_below store_ana"
    by (simp add: ids_below_def store_ana_def)
  have m: "?ana \<in> set (usuarios store_ana)"
    by (simp add: store_ana_def)
  have "?r2 = \<lparr>status = 404, json = JObj [(''message'', JStr ''Usuario no encontrado'')]\<rparr>
       \<and> (\<forall>r \<in> set (usuarios ?s1). \<not> decimal_id_eq (JStr (params_id ?req)) (col_id r))
       \<and> (ids_below store_ana \<longrightarrow>
            (\<forall>r \<in> set (usuarios store_ana). \<forall>c.
               js_get (json (fst (serve (db_query decimal_id_eq) (app_post_usuarios c) ?s1))) ''id'' \<noteq>
                 JNum (of_nat (col_id r))))"
    by (rule delete_then_get_by_id [OF _ d _ g]) simp_all
  with i m have "js_get (json (fst (serve (db_query decimal_id_eq)
        (app_post_usuarios \<lparr>params_id = [], body = [(''nombre'', JStr ''Eva''), (''email'', JStr ''eva@x.com'')]\<rparr>)
        ?s1))) ''id'' \<noteq> JNum (of_nat (col_id ?ana))"
    by blast
  then show ?thesis
    using d g by simp
qed

end
